theory Spec2Isabelle
  imports Complex_Main
begin

section \<open>Values of a request\<close>

text \<open>
  The handlers of \<^verbatim>\<open>index.js\<close> read the fields of a JSON body parsed by
  \<^verbatim>\<open>express.json()\<close>. A field is any JSON value, or \<^verbatim>\<open>undefined\<close> when the body
  does not have it. A number read from JSON is a finite double, a real number.
  Strings are lists of code units below 256.
\<close>

datatype jsval =
    JUndefined
  | JNull
  | JBool bool
  | JNum real
  | JStr string
  | JArr "jsval list"
  | JObj "(string \<times> jsval) list"

text \<open>\<^verbatim>\<open>!v\<close> is \<open>\<not> truthy v\<close>.\<close>

fun truthy :: "jsval \<Rightarrow> bool" where
  "truthy JUndefined = False"
| "truthy JNull = False"
| "truthy (JBool b) = b"
| "truthy (JNum r) = (r \<noteq> 0)"
| "truthy (JStr s) = (s \<noteq> [])"
| "truthy (JArr xs) = True"
| "truthy (JObj kvs) = True"

text \<open>
  \<^verbatim>\<open>String.prototype.trim\<close> strips white space and line terminators from both
  ends: among the code units below 256 these are TAB, LF, VT, FF, CR, SP and NBSP.
\<close>

definition isWhiteSpace :: "char \<Rightarrow> bool" where
  "isWhiteSpace c =
     (c = CHR 0x09 \<or> c = CHR 0x0A \<or> c = CHR 0x0B \<or> c = CHR 0x0C \<or> c = CHR 0x0D
      \<or> c = CHR 0x20 \<or> c = CHR 0xA0)"

definition trim :: "string \<Rightarrow> string" where
  "trim s = rev (dropWhile isWhiteSpace (rev (dropWhile isWhiteSpace s)))"

section \<open>The poll store\<close>

datatype poll_status = Active | Closed

text \<open>
  The record stored at \<^verbatim>\<open>polls[pollId]\<close> (lines 88-96). The field \<^verbatim>\<open>id\<close> is
  \<open>id_poll\<close> here. \<^verbatim>\<open>votes\<close> is the list of the array's elements; \<^verbatim>\<open>voters\<close> is
  the \<^verbatim>\<open>Set\<close> of voter identities.
\<close>

record poll =
  id_poll :: string
  question :: string
  options :: "string list"
  votes :: "nat list"
  status :: poll_status
  createdAt :: string
  voters :: "string set"

text \<open>
  \<^verbatim>\<open>const polls = {}\<close> is a plain object, so \<^verbatim>\<open>polls[pollId]\<close> finds the object's
  own properties (the polls) and, for a key that is not one of them, the properties
  inherited from \<^verbatim>\<open>Object.prototype\<close>: eleven functions and the accessor
  \<^verbatim>\<open>__proto__\<close>, all truthy.
\<close>

definition objectPrototypeKeys :: "string list" where
  "objectPrototypeKeys =
     [''constructor'', ''__defineGetter__'', ''__defineSetter__'', ''hasOwnProperty'',
      ''__lookupGetter__'', ''__lookupSetter__'', ''isPrototypeOf'',
      ''propertyIsEnumerable'', ''toString'', ''valueOf'', ''__proto__'',
      ''toLocaleString'']"

text \<open>
  The state: the own properties of \<^verbatim>\<open>polls\<close>, and the keys of the inherited objects
  on which the close handler has set \<^verbatim>\<open>status = 'closed'\<close> (line 293 writes to whatever
  object the lookup returned).
\<close>

record store =
  polls :: "string \<rightharpoonup> poll"
  closedInherited :: "string set"

definition emptyStore :: store where
  "emptyStore = \<lparr>polls = Map.empty, closedInherited = {}\<rparr>"

datatype found = OwnPoll poll | Inherited string

text \<open>
  The keys that \<^verbatim>\<open>polls\<close> inherits. Line 293 is the only write to an inherited object.
  On \<^verbatim>\<open>polls['__proto__']\<close>, which is \<^verbatim>\<open>Object.prototype\<close> itself, it adds the
  property \<^verbatim>\<open>status\<close> to the prototype: from then on \<^verbatim>\<open>polls['status']\<close> is the string
  \<^verbatim>\<open>'closed'\<close>, which is truthy, has no field of a poll and reads \<^verbatim>\<open>'closed'\<close> as its
  own \<^verbatim>\<open>status\<close>. The other inherited objects are functions outside the prototype
  chain of \<^verbatim>\<open>polls\<close>, and a write to them adds no key.
\<close>

definition inheritedKey :: "string \<Rightarrow> store \<Rightarrow> bool" where
  "inheritedKey k s =
     (k \<in> set objectPrototypeKeys \<or> (k = ''status'' \<and> ''__proto__'' \<in> closedInherited s))"

text \<open>\<^verbatim>\<open>getPollOrError\<close> (lines 42-47); \<open>None\<close> is \<^verbatim>\<open>{ error: true }\<close>.\<close>

definition getPollOrError :: "string \<Rightarrow> store \<Rightarrow> found option" where
  "getPollOrError pollId s =
     (case polls s pollId of
        Some p \<Rightarrow> Some (OwnPoll p)
      | None \<Rightarrow> if inheritedKey pollId s then Some (Inherited pollId) else None)"

text \<open>
  \<^verbatim>\<open>poll.status === 'closed'\<close> on an inherited object: the property is found on the
  object itself or, further up its prototype chain, on \<^verbatim>\<open>Object.prototype\<close>.
\<close>

definition inheritedClosed :: "string \<Rightarrow> store \<Rightarrow> bool" where
  "inheritedClosed k s = (k \<in> closedInherited s \<or> ''__proto__'' \<in> closedInherited s)"

section \<open>Responses\<close>

text \<open>
  A failure is the response of an early \<^verbatim>\<open>return res.status(...)\<close> or of the
  \<^verbatim>\<open>catch\<close> block:
  \<^item> \<open>ValidationError m\<close>: status 400 with message \<open>m\<close> (lines 65, 72, 80, 187);
  \<^item> \<open>NotFoundError\<close>: status 404, \<^verbatim>\<open>'Poll not found'\<close>;
  \<^item> \<open>ClosedError\<close>: status 400, \<^verbatim>\<open>'This poll is closed. Voting is not allowed.'\<close>;
  \<^item> \<open>DuplicateVoteError\<close>: status 400, \<^verbatim>\<open>'You have already voted in this poll'\<close>;
  \<^item> \<open>AlreadyClosedError\<close>: status 400, \<^verbatim>\<open>'Poll is already closed'\<close>;
  \<^item> \<open>ServerError\<close>: status 500, a \<^verbatim>\<open>TypeError\<close> caught by the handler.
\<close>

datatype error =
    ValidationError string
  | NotFoundError
  | ClosedError
  | DuplicateVoteError
  | AlreadyClosedError
  | ServerError

fun isValidationError :: "error + 'a \<Rightarrow> bool" where
  "isValidationError (Inl (ValidationError m)) = True"
| "isValidationError r = False"

section \<open>Create\<close>

text \<open>
  What a create request reads from outside the program: \<^verbatim>\<open>Date.now()\<close>, the
  suffix \<^verbatim>\<open>Math.random().toString(36).substr(2, 9)\<close> and
  \<^verbatim>\<open>new Date().toISOString()\<close>.
\<close>

record env =
  dateNow :: nat
  randomSuffix :: string
  isoString :: string

fun showNat :: "nat \<Rightarrow> string" where
  "showNat n =
     (if n < 10 then [''0123456789'' ! n]
      else showNat (n div 10) @ [''0123456789'' ! (n mod 10)])"

declare showNat.simps [simp del]

definition generatePollId :: "env \<Rightarrow> string" where
  "generatePollId e = ''poll_'' @ showNat (dateNow e) @ ''_'' @ randomSuffix e"

text \<open>
  \<^verbatim>\<open>opt.trim()\<close> inside the filter callback (line 78): a string is kept when its
  trimmed form is not empty; any other element has no \<^verbatim>\<open>trim\<close> method and the
  call throws.
\<close>

fun cleanOptions :: "jsval list \<Rightarrow> string list option" where
  "cleanOptions [] = Some []"
| "cleanOptions (JStr s # rest) =
     (case cleanOptions rest of
        None \<Rightarrow> None
      | Some kept \<Rightarrow> Some (if trim s \<noteq> [] then s # kept else kept))"
| "cleanOptions (v # rest) = None"

record createView =
  cv_pollId :: string
  cv_question :: string
  cv_options :: "string list"
  cv_status :: poll_status

definition createPoll :: "env \<Rightarrow> jsval \<Rightarrow> jsval \<Rightarrow> store \<Rightarrow> (error + createView) \<times> store" where
  "createPoll e q opts s =
     (if \<not> truthy q then (Inl (ValidationError ''Question is required''), s)
      else case q of
        JStr qs \<Rightarrow>
          if trim qs = [] then (Inl (ValidationError ''Question is required''), s)
          else (case opts of
            JArr os \<Rightarrow>
              if length os < 2 then (Inl (ValidationError ''At least 2 options are required''), s)
              else (case cleanOptions os of
                None \<Rightarrow> (Inl ServerError, s)
              | Some cleanedOptions \<Rightarrow>
                  if length cleanedOptions < 2
                  then (Inl (ValidationError ''At least 2 non-empty options are required''), s)
                  else
                    let pollId = generatePollId e;
                        p = \<lparr>id_poll = pollId, question = trim qs, options = cleanedOptions,
                             votes = map (\<lambda>_. 0) cleanedOptions, status = Active,
                             createdAt = isoString e, voters = {}\<rparr>
                    in (Inr \<lparr>cv_pollId = pollId, cv_question = question p,
                              cv_options = options p, cv_status = status p\<rparr>,
                        s\<lparr>polls := (polls s)(pollId \<mapsto> p)\<rparr>))
          | _ \<Rightarrow> (Inl (ValidationError ''At least 2 options are required''), s))
      | _ \<Rightarrow> (Inl ServerError, s))"

section \<open>Get\<close>

text \<open>
  The projection returned by \<^verbatim>\<open>GET /api/polls/:pollId\<close> (lines 138-144). For an
  inherited object every field read is \<^verbatim>\<open>undefined\<close>, except \<^verbatim>\<open>status\<close> once the close
  handler has set it; \<open>InheritedView c\<close> records whether it reads \<^verbatim>\<open>'closed'\<close>.
\<close>

datatype pollView =
    PollView string string "string list" poll_status string
  | InheritedView bool

definition getPoll :: "string \<Rightarrow> store \<Rightarrow> error + pollView" where
  "getPoll pollId s =
     (case getPollOrError pollId s of
        None \<Rightarrow> Inl NotFoundError
      | Some (OwnPoll p) \<Rightarrow>
          Inr (PollView (id_poll p) (question p) (options p) (status p) (createdAt p))
      | Some (Inherited k) \<Rightarrow> Inr (InheritedView (inheritedClosed k s)))"

section \<open>Vote\<close>

text \<open>
  The body of a vote request is \<^verbatim>\<open>{ optionIndex: number, voterId?: string }\<close>
  (line 158). \<^verbatim>\<open>optionIndex\<close> is kept as any JSON value, since line 186 tests its type;
  \<^verbatim>\<open>voterId\<close> is an optional string, \<open>None\<close> when the body does not have it, and
  \<^verbatim>\<open>req.ip\<close> is a string. A \<^verbatim>\<open>voterId\<close> of another type is outside this model, and so is
  the number \<^verbatim>\<open>Infinity\<close>, read from a JSON literal too large for a double, which
  line 186 rejects like every number at or above the number of options.
\<close>

text \<open>\<^verbatim>\<open>voterId || req.ip\<close> (line 194): the empty string is falsy.\<close>

definition uniqueVoterId :: "string option \<Rightarrow> string \<Rightarrow> string" where
  "uniqueVoterId voterId ip =
     (case voterId of None \<Rightarrow> ip | Some v \<Rightarrow> if v \<noteq> [] then v else ip)"

definition isIndex :: "real \<Rightarrow> bool" where
  "isIndex r = (0 \<le> r \<and> of_int \<lfloor>r\<rfloor> = r)"

text \<open>
  \<^verbatim>\<open>poll.votes[optionIndex]++\<close> (line 203). When the number is an integer below the
  array's length, that element is incremented. A number that is not an integer names
  a property that is not an element: the statement reads \<^verbatim>\<open>undefined\<close> and writes
  \<^verbatim>\<open>NaN\<close> there, which no handler ever reads (they read the elements
  \<^verbatim>\<open>0 .. options.length - 1\<close> and \<^verbatim>\<open>reduce\<close> visits elements only), so the elements
  stay as they are. An integer at or above the array's length cannot reach this line
  in a reachable store, where \<^verbatim>\<open>votes\<close> and \<^verbatim>\<open>options\<close> have the same length
  (lemma \<open>reachable_poll\<close>).
\<close>

definition incrementAt :: "real \<Rightarrow> nat list \<Rightarrow> nat list" where
  "incrementAt r vs =
     (if isIndex r \<and> nat \<lfloor>r\<rfloor> < length vs
      then vs[nat \<lfloor>r\<rfloor> := vs ! nat \<lfloor>r\<rfloor> + 1]
      else vs)"

text \<open>\<^verbatim>\<open>poll.options[optionIndex]\<close> (line 210); \<open>None\<close> is \<^verbatim>\<open>undefined\<close>.\<close>

definition optionAt :: "real \<Rightarrow> string list \<Rightarrow> string option" where
  "optionAt r os =
     (if isIndex r \<and> nat \<lfloor>r\<rfloor> < length os then Some (os ! nat \<lfloor>r\<rfloor>) else None)"

record voteReceipt =
  vr_pollId :: string
  vr_option :: "string option"

definition invalidOptionIndex :: error where
  "invalidOptionIndex = ValidationError ''Invalid option index''"

definition vote ::
  "string \<Rightarrow> jsval \<Rightarrow> string option \<Rightarrow> string \<Rightarrow> store \<Rightarrow> (error + voteReceipt) \<times> store" where
  "vote pollId optionIndex voterId ip s =
     (case getPollOrError pollId s of
        None \<Rightarrow> (Inl NotFoundError, s)
      | Some (Inherited k) \<Rightarrow>
          if inheritedClosed k s then (Inl ClosedError, s)
          else (case optionIndex of
            JNum r \<Rightarrow> if r < 0 then (Inl invalidOptionIndex, s) else (Inl ServerError, s)
          | _ \<Rightarrow> (Inl invalidOptionIndex, s))
      | Some (OwnPoll p) \<Rightarrow>
          if status p = Closed then (Inl ClosedError, s)
          else (case optionIndex of
            JNum r \<Rightarrow>
              if r < 0 \<or> r \<ge> of_nat (length (options p)) then (Inl invalidOptionIndex, s)
              else if uniqueVoterId voterId ip \<in> voters p then (Inl DuplicateVoteError, s)
              else
                (Inr \<lparr>vr_pollId = pollId, vr_option = optionAt r (options p)\<rparr>,
                 s\<lparr>polls := (polls s)(pollId \<mapsto>
                      p\<lparr>votes := incrementAt r (votes p),
                        voters := insert (uniqueVoterId voterId ip) (voters p)\<rparr>)\<rparr>)
          | _ \<Rightarrow> (Inl invalidOptionIndex, s)))"

section \<open>Close and Delete\<close>

definition closePoll :: "string \<Rightarrow> store \<Rightarrow> (error + string \<times> poll_status) \<times> store" where
  "closePoll pollId s =
     (case getPollOrError pollId s of
        None \<Rightarrow> (Inl NotFoundError, s)
      | Some (Inherited k) \<Rightarrow>
          if inheritedClosed k s then (Inl AlreadyClosedError, s)
          else (Inr (pollId, Closed), s\<lparr>closedInherited := insert k (closedInherited s)\<rparr>)
      | Some (OwnPoll p) \<Rightarrow>
          if status p = Closed then (Inl AlreadyClosedError, s)
          else (Inr (pollId, Closed), s\<lparr>polls := (polls s)(pollId \<mapsto> p\<lparr>status := Closed\<rparr>)\<rparr>))"

text \<open>
  \<^verbatim>\<open>delete polls[pollId]\<close> (line 356) removes an own property and does nothing for a
  key that is only inherited.
\<close>

definition deletePoll :: "string \<Rightarrow> store \<Rightarrow> (error + string) \<times> store" where
  "deletePoll pollId s =
     (case getPollOrError pollId s of
        None \<Rightarrow> (Inl NotFoundError, s)
      | Some f \<Rightarrow> (Inr pollId, s\<lparr>polls := (polls s)(pollId := None)\<rparr>))"

section \<open>Sequences of operations\<close>

datatype op =
    Create env jsval jsval
  | Vote string jsval "string option" string
  | Close string
  | Delete string

fun step :: "op \<Rightarrow> store \<Rightarrow> store" where
  "step (Create e q os) s = snd (createPoll e q os s)"
| "step (Vote pollId optionIndex voterId ip) s = snd (vote pollId optionIndex voterId ip s)"
| "step (Close pollId) s = snd (closePoll pollId s)"
| "step (Delete pollId) s = snd (deletePoll pollId s)"

fun run :: "op list \<Rightarrow> store \<Rightarrow> store" where
  "run [] s = s"
| "run (x # xs) s = run xs (step x s)"

inductive reachable :: "store \<Rightarrow> bool" where
  reachable_empty: "reachable emptyStore"
| reachable_step: "reachable s \<Longrightarrow> reachable (step x s)"

section \<open>Results\<close>

text \<open>
  The arithmetic of \<^verbatim>\<open>(poll.votes[index] / totalVotes) * 100\<close> (line 244) is that of
  IEEE 754 doubles: each operation returns the double nearest to the exact result, the
  one with the even significand when two are equally near. \<open>binaryExponent x\<close> is the
  exponent \<open>e\<close> with \<open>2\<^sup>e \<le> x < 2\<^sup>e\<^sup>+\<^sup>1\<close>, and a double in that range is a multiple of
  \<open>2\<^sup>e\<^sup>-\<^sup>5\<^sup>2\<close>. \<open>float64\<close> is this rounding for the numbers that occur here: zero and
  the positive numbers of the normal range. The vote counts are integers below
  \<open>2\<^sup>5\<^sup>3\<close>, which are doubles.
\<close>

definition roundEven :: "real \<Rightarrow> int" where
  "roundEven x =
     (let f = \<lfloor>x\<rfloor>; d = x - of_int f
      in if d < 1 / 2 then f else if 1 / 2 < d then f + 1 else if even f then f else f + 1)"

function binaryExponent :: "real \<Rightarrow> int" where
  "binaryExponent x =
     (if x \<le> 0 then 0
      else if x < 1 then binaryExponent (2 * x) - 1
      else if 2 \<le> x then binaryExponent (x / 2) + 1
      else 0)"
  by pat_completeness auto
termination
proof (relation "measure (\<lambda>x. nat \<bar>\<lfloor>log 2 x\<rfloor>\<bar>)")
  show "wf (measure (\<lambda>x. nat \<bar>\<lfloor>log 2 x\<rfloor>\<bar>))" by simp
next
  fix x :: real assume x: "\<not> x \<le> 0" "x < 1"
  then have "log 2 x < 0" by simp
  then have "\<lfloor>log 2 x\<rfloor> < 0" by linarith
  moreover from x have "\<lfloor>log 2 (2 * x)\<rfloor> = \<lfloor>log 2 x\<rfloor> + 1"
    by (simp add: log_mult)
  ultimately show "(2 * x, x) \<in> measure (\<lambda>x. nat \<bar>\<lfloor>log 2 x\<rfloor>\<bar>)"
    unfolding in_measure by linarith
next
  fix x :: real assume x: "\<not> x \<le> 0" "\<not> x < 1" "2 \<le> x"
  then have "1 \<le> log 2 x" by (simp add: le_log_iff)
  then have "1 \<le> \<lfloor>log 2 x\<rfloor>" by linarith
  moreover from x have "\<lfloor>log 2 (x / 2)\<rfloor> = \<lfloor>log 2 x\<rfloor> - 1"
    by (simp add: log_divide)
  ultimately show "(x / 2, x) \<in> measure (\<lambda>x. nat \<bar>\<lfloor>log 2 x\<rfloor>\<bar>)"
    unfolding in_measure by linarith
qed

declare binaryExponent.simps [simp del]

definition float64 :: "real \<Rightarrow> real" where
  "float64 x =
     (if x \<le> 0 then 0
      else let e = binaryExponent x - 52 in of_int (roundEven (x / 2 powi e)) * 2 powi e)"

text \<open>\<^verbatim>\<open>(poll.votes[index] / totalVotes) * 100\<close> for the counts \<open>v\<close> and \<open>t\<close>.\<close>

definition percentageOf :: "nat \<Rightarrow> nat \<Rightarrow> real" where
  "percentageOf v t = float64 (float64 (real v / real t) * 100)"

text \<open>
  \<^verbatim>\<open>x.toFixed(1)\<close> for a double \<open>0 \<le> x < 10\<^sup>2\<^sup>1\<close>: with \<open>n\<close> the integer for which
  \<open>n / 10 - x\<close> is nearest to zero, the larger one when two are equally near, the
  decimal digits of \<open>n\<close> with a point before the last one. \<open>tenths x\<close> is that \<open>n\<close>.
\<close>

definition tenths :: "real \<Rightarrow> nat" where
  "tenths x = nat \<lfloor>x * 10 + 1 / 2\<rfloor>"

definition toFixed1 :: "real \<Rightarrow> string" where
  "toFixed1 x = showNat (tenths x div 10) @ ''.'' @ showNat (tenths x mod 10)"

text \<open>
  \<^verbatim>\<open>GET /api/polls/:pollId/results\<close> (lines 226-263): \<^verbatim>\<open>totalVotes\<close> and, for every
  option in order, the option, its count and its percentage, which is the string
  \<^verbatim>\<open>toFixed\<close> returns, or the number 0 when there is no vote. On an inherited object
  \<^verbatim>\<open>poll.votes\<close> is \<^verbatim>\<open>undefined\<close> and \<^verbatim>\<open>reduce\<close> throws. \<^verbatim>\<open>votes\<close> and \<^verbatim>\<open>options\<close> have
  the same length in every reachable store, so \<open>zip\<close> pairs every option with its
  count.
\<close>

record resultRow =
  rr_option :: string
  rr_votes :: nat
  rr_percentage :: jsval

record resultsView =
  rv_pollId :: string
  rv_question :: string
  rv_status :: poll_status
  rv_totalVotes :: nat
  rv_results :: "resultRow list"
  rv_createdAt :: string

definition results :: "string \<Rightarrow> store \<Rightarrow> error + resultsView" where
  "results pollId s =
     (case getPollOrError pollId s of
        None \<Rightarrow> Inl NotFoundError
      | Some (Inherited k) \<Rightarrow> Inl ServerError
      | Some (OwnPoll p) \<Rightarrow>
          let totalVotes = foldl (+) 0 (votes p)
          in Inr \<lparr>rv_pollId = pollId, rv_question = question p, rv_status = status p,
                  rv_totalVotes = totalVotes,
                  rv_results =
                    map (\<lambda>(option, v).
                          \<lparr>rr_option = option, rr_votes = v,
                           rr_percentage =
                             (if totalVotes > 0 then JStr (toFixed1 (percentageOf v totalVotes))
                              else JNum 0)\<rparr>)
                        (zip (options p) (votes p)),
                  rv_createdAt = createdAt p\<rparr>)"

section \<open>Notions used by the properties\<close>



text \<open>A vote request carries a connection address that is not empty.\<close>

fun addressGiven :: "op \<Rightarrow> bool" where
  "addressGiven (Vote pollId optionIndex voterId ip) = (ip \<noteq> [])"
| "addressGiven x = True"

text \<open>A vote request whose option index, when it is a number, is an integer.\<close>

fun integerIndex :: "op \<Rightarrow> bool" where
  "integerIndex (Vote pollId (JNum r) voterId ip) = (of_int \<lfloor>r\<rfloor> = r)"
| "integerIndex x = True"


text \<open>The scenario of the specification: a poll with three options, one of them twice.\<close>

definition exampleEnv :: env where
  "exampleEnv = \<lparr>dateNow = 1700000000000, randomSuffix = ''k3j9x2m1q'',
                  isoString = ''2023-11-14T22:13:20.000Z''\<rparr>"

definition examplePoll :: poll where
  "examplePoll = \<lparr>id_poll = generatePollId exampleEnv, question = ''Best color?'',
                   options = [''Red'', ''Blue'', ''Blue''], votes = [0, 0, 0], status = Active,
                   createdAt = isoString exampleEnv, voters = {}\<rparr>"

definition exampleStore :: store where
  "exampleStore =
     step (Create exampleEnv (JStr ''Best color?'')
             (JArr [JStr ''Red'', JStr ''Blue'', JStr ''Blue'', JStr ''''])) emptyStore"

text \<open>The same poll after three votes: one for the first option, two for the second.\<close>

definition votedStore :: store where
  "votedStore =
     run [Vote (generatePollId exampleEnv) (JNum 0) (Some ''voterA'') ''10.0.0.7'',
          Vote (generatePollId exampleEnv) (JNum 1) (Some ''voterB'') ''10.0.0.8'',
          Vote (generatePollId exampleEnv) (JNum 1) None ''10.0.0.9'']
       exampleStore"

section \<open>Stores reached by requests\<close>

lemma getPollOrError_own: "polls s pollId = Some p \<Longrightarrow> getPollOrError pollId s = Some (OwnPoll p)"
  by (simp add: getPollOrError_def)

lemma polls_createPoll:
  "polls (snd (createPoll e q os s)) k = Some P \<Longrightarrow>
     polls s k = Some P \<or>
     (k = generatePollId e \<and> id_poll P = k \<and> status P = Active \<and> voters P = {}
      \<and> length (votes P) = length (options P) \<and> 2 \<le> length (options P))"
  by (auto simp: createPoll_def Let_def split: if_splits jsval.splits option.splits)


lemma polls_createPoll_zero:
  "polls (snd (createPoll e q os s)) k = Some P \<Longrightarrow>
     polls s k = Some P \<or>
     (voters P = {} \<and> votes P = map (\<lambda>opt. 0) (options P))"
  by (auto simp: createPoll_def Let_def split: if_splits jsval.splits option.splits)

lemma polls_vote:
  "polls (snd (vote pollId oi vid ip s)) k = Some P \<Longrightarrow>
     polls s k = Some P \<or>
     (\<exists>p r. polls s k = Some p \<and> k = pollId \<and>
        P = p\<lparr>votes := incrementAt r (votes p), voters := insert (uniqueVoterId vid ip) (voters p)\<rparr>)"
  by (auto simp: vote_def getPollOrError_def split: if_splits jsval.splits option.splits found.splits)

lemma polls_vote_number:
  "polls (snd (vote pollId (JNum r) vid ip s)) k = Some P \<Longrightarrow>
     polls s k = Some P \<or>
     (\<exists>p. polls s k = Some p \<and> 0 \<le> r \<and> r < real (length (options p))
        \<and> uniqueVoterId vid ip \<notin> voters p
        \<and> P = p\<lparr>votes := incrementAt r (votes p), voters := insert (uniqueVoterId vid ip) (voters p)\<rparr>)"
  by (auto simp: vote_def getPollOrError_def not_less not_le
      split: if_splits option.splits found.splits)

lemma vote_not_number:
  "(\<And>r. oi \<noteq> JNum r) \<Longrightarrow> snd (vote pollId oi vid ip s) = s"
  by (cases oi) (auto simp: vote_def split: if_splits option.splits found.splits)

lemma polls_closePoll:
  "polls (snd (closePoll pollId s)) k = Some P \<Longrightarrow>
     polls s k = Some P \<or> (\<exists>p. polls s k = Some p \<and> P = p\<lparr>status := Closed\<rparr>)"
  by (auto simp: closePoll_def getPollOrError_def split: if_splits option.splits found.splits)

lemma polls_deletePoll:
  "polls (snd (deletePoll pollId s)) k = Some P \<Longrightarrow> polls s k = Some P"
  by (auto simp: deletePoll_def getPollOrError_def split: if_splits option.splits found.splits)



lemma length_incrementAt [simp]: "length (incrementAt r vs) = length vs"
  by (simp add: incrementAt_def)

lemma generatePollId_prefix: "take 5 (generatePollId e) = ''poll_''"
  by (simp add: generatePollId_def)

lemma reachable_poll:
  "reachable s \<Longrightarrow> polls s k = Some P \<Longrightarrow>
     id_poll P = k \<and> length (votes P) = length (options P) \<and> 2 \<le> length (options P)
     \<and> finite (voters P) \<and> take 5 k = ''poll_''"
proof (induction arbitrary: P rule: reachable.induct)
  case reachable_empty
  then show ?case by (simp add: emptyStore_def)
next
  case (reachable_step s x)
  show ?case
  proof (cases x)
    case (Create e q os)
    with reachable_step.prems have "polls (snd (createPoll e q os s)) k = Some P" by simp
    from polls_createPoll [OF this] reachable_step.IH show ?thesis
      by (auto simp: generatePollId_prefix)
  next
    case (Vote pollId oi vid ip)
    with reachable_step.prems have "polls (snd (vote pollId oi vid ip s)) k = Some P" by simp
    from polls_vote [OF this] reachable_step.IH show ?thesis
      by auto
  next
    case (Close pollId)
    with reachable_step.prems have "polls (snd (closePoll pollId s)) k = Some P" by simp
    from polls_closePoll [OF this] reachable_step.IH show ?thesis
      by auto
  next
    case (Delete pollId)
    with reachable_step.prems have "polls (snd (deletePoll pollId s)) k = Some P" by simp
    from polls_deletePoll [OF this] reachable_step.IH show ?thesis
      by auto
  qed
qed


section \<open>The stores of the scenario\<close>

lemma trim_simps:
  "trim [] = []"
  "trim ''Best color?'' = ''Best color?''"
  "trim ''Red'' = ''Red''"
  "trim ''Blue'' = ''Blue''"
  "trim '' Red '' = ''Red''"
  "trim ''   '' = []"
  by (simp_all add: trim_def isWhiteSpace_def)

lemma exampleStore_eq:
  "exampleStore = \<lparr>polls = [generatePollId exampleEnv \<mapsto> examplePoll], closedInherited = {}\<rparr>"
  by (simp add: exampleStore_def createPoll_def trim_simps examplePoll_def emptyStore_def Let_def)

lemma reachable_exampleStore: "reachable exampleStore"
  unfolding exampleStore_def by (intro reachable_step reachable_empty)



section \<open>Creating a poll\<close>

lemma cleanOptions_strings:
  "cleanOptions (map JStr os) = Some (filter (\<lambda>opt. trim opt \<noteq> []) os)"
  by (induction os) simp_all

text \<open>What the create handler answers on the documented body.\<close>

lemma createPoll_typed:
  "(if trim q \<noteq> [] \<and> 2 \<le> length (filter (\<lambda>opt. trim opt \<noteq> []) os)
    then createPoll e (JStr q) (JArr (map JStr os)) s =
           (Inr \<lparr>cv_pollId = generatePollId e, cv_question = trim q,
                 cv_options = filter (\<lambda>opt. trim opt \<noteq> []) os, cv_status = Active\<rparr>,
            s\<lparr>polls := (polls s)(generatePollId e \<mapsto>
                 \<lparr>id_poll = generatePollId e, question = trim q,
                  options = filter (\<lambda>opt. trim opt \<noteq> []) os,
                  votes = replicate (length (filter (\<lambda>opt. trim opt \<noteq> []) os)) 0,
                  status = Active, createdAt = isoString e, voters = {}\<rparr>)\<rparr>)
    else isValidationError (fst (createPoll e (JStr q) (JArr (map JStr os)) s))
         \<and> snd (createPoll e (JStr q) (JArr (map JStr os)) s) = s)"
proof -
  have short: "length os < 2 \<Longrightarrow> length (filter (\<lambda>opt. trim opt \<noteq> []) os) < 2"
    using length_filter_le [of "\<lambda>opt. trim opt \<noteq> []" os] by linarith
  have empty_q: "q = [] \<Longrightarrow> trim q = []" by (simp add: trim_def)
  show ?thesis
    using short empty_q
    by (auto simp: createPoll_def cleanOptions_strings Let_def map_replicate_const)
qed

text \<open>The identifiers of two create requests.\<close>

lemma digit_inj:
  "a < 10 \<Longrightarrow> b < 10 \<Longrightarrow> ''0123456789'' ! a = ''0123456789'' ! b \<Longrightarrow> a = b"
  using nth_eq_iff_index_eq [of "''0123456789''" a b] by simp

lemma digit_not_underscore: "a < 10 \<Longrightarrow> ''0123456789'' ! a \<noteq> CHR ''_''"
  using nth_mem [of a "''0123456789''"] by auto

lemma showNat_nonempty: "showNat n \<noteq> []"
  by (subst showNat.simps) simp

lemma showNat_no_underscore: "CHR ''_'' \<notin> set (showNat n)"
proof (induction n rule: showNat.induct)
  case (1 n)
  show ?case
  proof (cases "n < 10")
    case True
    then show ?thesis
      using digit_not_underscore [of n] by (subst showNat.simps) auto
  next
    case False
    with 1 have "CHR ''_'' \<notin> set (showNat (n div 10))" by simp
    moreover have "''0123456789'' ! (n mod 10) \<noteq> CHR ''_''"
      by (rule digit_not_underscore) simp
    ultimately show ?thesis
      using False by (subst showNat.simps) auto
  qed
qed

lemma showNat_inj: "showNat n = showNat m \<Longrightarrow> n = m"
proof (induction n arbitrary: m rule: showNat.induct)
  case (1 n)
  show ?case
  proof (cases "n < 10")
    case n: True
    then have sn: "showNat n = [''0123456789'' ! n]" by (subst showNat.simps) simp
    show ?thesis
    proof (cases "m < 10")
      case True
      then have "showNat m = [''0123456789'' ! m]" by (subst showNat.simps) simp
      with sn 1(2) have "''0123456789'' ! n = ''0123456789'' ! m" by simp
      with n True show ?thesis by (rule digit_inj)
    next
      case False
      then have "showNat m = showNat (m div 10) @ [''0123456789'' ! (m mod 10)]"
        by (subst showNat.simps) simp
      with sn 1(2) showNat_nonempty [of "m div 10"] show ?thesis by (cases "showNat (m div 10)") auto
    qed
  next
    case n: False
    then have sn: "showNat n = showNat (n div 10) @ [''0123456789'' ! (n mod 10)]"
      by (subst showNat.simps) simp
    show ?thesis
    proof (cases "m < 10")
      case True
      then have "showNat m = [''0123456789'' ! m]" by (subst showNat.simps) simp
      with sn 1(2) showNat_nonempty [of "n div 10"] show ?thesis by (cases "showNat (n div 10)") auto
    next
      case False
      then have "showNat m = showNat (m div 10) @ [''0123456789'' ! (m mod 10)]"
        by (subst showNat.simps) simp
      with sn 1(2) have a: "showNat (n div 10) = showNat (m div 10)"
        and b: "''0123456789'' ! (n mod 10) = ''0123456789'' ! (m mod 10)" by simp_all
      from 1(1) [OF n a] have d: "n div 10 = m div 10" .
      have "n mod 10 = m mod 10" by (rule digit_inj [OF _ _ b]) simp_all
      with d show ?thesis by (metis div_mult_mod_eq)
    qed
  qed
qed

lemma append_separator_eq:
  assumes "c \<notin> set xs" and "c \<notin> set ys" and eq: "xs @ c # r = ys @ c # r'"
  shows "xs = ys \<and> r = r'"
proof -
  have "takeWhile (\<lambda>x. x \<noteq> c) (xs @ c # r) = xs"
    using assms(1) by (subst takeWhile_append2) auto
  moreover have "takeWhile (\<lambda>x. x \<noteq> c) (ys @ c # r') = ys"
    using assms(2) by (subst takeWhile_append2) auto
  ultimately have "xs = ys" using eq by simp
  with eq show ?thesis by simp
qed

lemma generatePollId_inj:
  "generatePollId e = generatePollId e' \<longleftrightarrow>
     dateNow e = dateNow e' \<and> randomSuffix e = randomSuffix e'"
proof
  assume "generatePollId e = generatePollId e'"
  then have "showNat (dateNow e) @ CHR ''_'' # randomSuffix e
      = showNat (dateNow e') @ CHR ''_'' # randomSuffix e'"
    by (simp add: generatePollId_def)
  from append_separator_eq [OF showNat_no_underscore showNat_no_underscore this]
  show "dateNow e = dateNow e' \<and> randomSuffix e = randomSuffix e'"
    by (simp add: showNat_inj)
next
  assume "dateNow e = dateNow e' \<and> randomSuffix e = randomSuffix e'"
  then show "generatePollId e = generatePollId e'" by (simp add: generatePollId_def)
qed

lemma votedStore_eq:
  "votedStore =
     \<lparr>polls = [generatePollId exampleEnv \<mapsto>
        examplePoll\<lparr>votes := [1, 2, 0], voters := {''voterA'', ''voterB'', ''10.0.0.9''}\<rparr>],
      closedInherited = {}\<rparr>"
  by (simp add: votedStore_def exampleStore_eq vote_def getPollOrError_def examplePoll_def
      incrementAt_def optionAt_def isIndex_def uniqueVoterId_def insert_commute numeral_2_eq_2)

text \<open>
  The identifier is built from the clock and the random suffix, and the handler never
  looks whether it is already a key of \<^verbatim>\<open>polls\<close> (line 88 assigns). A create request
  that reads the clock value and the random suffix of an earlier one succeeds without
  allocating a record: here the poll with three votes is replaced and the store has
  the same keys as before.
\<close>

theorem create_existing_id_counterexample:
  "polls votedStore (generatePollId exampleEnv) =
     Some (examplePoll\<lparr>votes := [1, 2, 0], voters := {''voterA'', ''voterB'', ''10.0.0.9''}\<rparr>)
   \<and> createPoll exampleEnv (JStr ''Best color?'') (JArr [JStr ''Red'', JStr ''Blue'']) votedStore =
       (Inr \<lparr>cv_pollId = generatePollId exampleEnv, cv_question = ''Best color?'',
             cv_options = [''Red'', ''Blue''], cv_status = Active\<rparr>,
        \<lparr>polls = [generatePollId exampleEnv \<mapsto>
           \<lparr>id_poll = generatePollId exampleEnv, question = ''Best color?'',
            options = [''Red'', ''Blue''], votes = [0, 0], status = Active,
            createdAt = isoString exampleEnv, voters = {}\<rparr>],
         closedInherited = {}\<rparr>)
   \<and> dom (polls (snd (createPoll exampleEnv (JStr ''Best color?'')
                         (JArr [JStr ''Red'', JStr ''Blue'']) votedStore)))
       = dom (polls votedStore)"
  by (simp add: votedStore_eq createPoll_def trim_simps Let_def)

text \<open>
  Claim C4, as amended. The identifier of a create request is \<^verbatim>\<open>poll_\<close>, the clock in
  decimal, \<^verbatim>\<open>_\<close> and the random suffix, so two requests have the same identifier
  exactly when they read the same clock value and the same suffix. For a question
  \<open>q\<close> and a list of option strings \<open>os\<close>: when the trimmed question is not empty and
  at least two options are not empty after trimming, the request succeeds and stores
  under its identifier a poll with status active, one zero vote count for each stored
  option and no voters, leaving every record under another key as it is; when the
  identifier is not yet a key this is a new record, the only key the store gains, and
  when it is already a key the record under it is replaced and the store gains no
  key. In every other case the request is refused with a \<open>ValidationError\<close> and the
  store is unchanged.
\<close>

theorem create_stores_under_generated_id:
  "generatePollId e = ''poll_'' @ showNat (dateNow e) @ ''_'' @ randomSuffix e
   \<and> (generatePollId e = generatePollId e' \<longleftrightarrow>
        dateNow e = dateNow e' \<and> randomSuffix e = randomSuffix e')
   \<and> (if trim q \<noteq> [] \<and> 2 \<le> length (filter (\<lambda>opt. trim opt \<noteq> []) os)
      then createPoll e (JStr q) (JArr (map JStr os)) s =
             (Inr \<lparr>cv_pollId = generatePollId e, cv_question = trim q,
                   cv_options = filter (\<lambda>opt. trim opt \<noteq> []) os, cv_status = Active\<rparr>,
              s\<lparr>polls := (polls s)(generatePollId e \<mapsto>
                   \<lparr>id_poll = generatePollId e, question = trim q,
                    options = filter (\<lambda>opt. trim opt \<noteq> []) os,
                    votes = replicate (length (filter (\<lambda>opt. trim opt \<noteq> []) os)) 0,
                    status = Active, createdAt = isoString e, voters = {}\<rparr>)\<rparr>)
           \<and> (\<forall>k. k \<noteq> generatePollId e \<longrightarrow>
                 polls (snd (createPoll e (JStr q) (JArr (map JStr os)) s)) k = polls s k)
           \<and> (polls s (generatePollId e) = None \<longrightarrow>
                 dom (polls (snd (createPoll e (JStr q) (JArr (map JStr os)) s)))
                   = insert (generatePollId e) (dom (polls s))
                 \<and> generatePollId e \<notin> dom (polls s))
           \<and> (polls s (generatePollId e) \<noteq> None \<longrightarrow>
                 dom (polls (snd (createPoll e (JStr q) (JArr (map JStr os)) s))) = dom (polls s))
      else isValidationError (fst (createPoll e (JStr q) (JArr (map JStr os)) s))
           \<and> snd (createPoll e (JStr q) (JArr (map JStr os)) s) = s)"
proof (intro conjI)
  show "generatePollId e = ''poll_'' @ showNat (dateNow e) @ ''_'' @ randomSuffix e"
    by (simp add: generatePollId_def)
next
  show "generatePollId e = generatePollId e' \<longleftrightarrow>
        dateNow e = dateNow e' \<and> randomSuffix e = randomSuffix e'"
    by (rule generatePollId_inj)
next
  from createPoll_typed [of q os e s]
  show "if trim q \<noteq> [] \<and> 2 \<le> length (filter (\<lambda>opt. trim opt \<noteq> []) os)
      then createPoll e (JStr q) (JArr (map JStr os)) s =
             (Inr \<lparr>cv_pollId = generatePollId e, cv_question = trim q,
                   cv_options = filter (\<lambda>opt. trim opt \<noteq> []) os, cv_status = Active\<rparr>,
              s\<lparr>polls := (polls s)(generatePollId e \<mapsto>
                   \<lparr>id_poll = generatePollId e, question = trim q,
                    options = filter (\<lambda>opt. trim opt \<noteq> []) os,
                    votes = replicate (length (filter (\<lambda>opt. trim opt \<noteq> []) os)) 0,
                    status = Active, createdAt = isoString e, voters = {}\<rparr>)\<rparr>)
           \<and> (\<forall>k. k \<noteq> generatePollId e \<longrightarrow>
                 polls (snd (createPoll e (JStr q) (JArr (map JStr os)) s)) k = polls s k)
           \<and> (polls s (generatePollId e) = None \<longrightarrow>
                 dom (polls (snd (createPoll e (JStr q) (JArr (map JStr os)) s)))
                   = insert (generatePollId e) (dom (polls s))
                 \<and> generatePollId e \<notin> dom (polls s))
           \<and> (polls s (generatePollId e) \<noteq> None \<longrightarrow>
                 dom (polls (snd (createPoll e (JStr q) (JArr (map JStr os)) s))) = dom (polls s))
      else isValidationError (fst (createPoll e (JStr q) (JArr (map JStr os)) s))
           \<and> snd (createPoll e (JStr q) (JArr (map JStr os)) s) = s"
    by (auto split: if_splits)
qed

theorem create_stores_under_generated_id_witness:
  "generatePollId exampleEnv = ''poll_1700000000000_k3j9x2m1q''
   \<and> createPoll exampleEnv (JStr ''Best color?'')
        (JArr (map JStr [''Red'', ''Blue'', ''Blue'', ''''])) emptyStore =
       (Inr \<lparr>cv_pollId = generatePollId exampleEnv, cv_question = ''Best color?'',
             cv_options = [''Red'', ''Blue'', ''Blue''], cv_status = Active\<rparr>,
        \<lparr>polls = [generatePollId exampleEnv \<mapsto> examplePoll], closedInherited = {}\<rparr>)
   \<and> dom (polls (snd (createPoll exampleEnv (JStr ''Best color?'')
        (JArr (map JStr [''Red'', ''Blue'', ''Blue'', ''''])) emptyStore)))
       = {generatePollId exampleEnv}
   \<and> dom (polls (snd (createPoll exampleEnv (JStr ''Best color?'')
        (JArr (map JStr [''Red'', ''Blue''])) votedStore)))
       = dom (polls votedStore)
   \<and> isValidationError (fst (createPoll exampleEnv (JStr ''Best color?'')
        (JArr (map JStr [''Red'', ''   ''])) emptyStore))
   \<and> snd (createPoll exampleEnv (JStr ''Best color?'')
        (JArr (map JStr [''Red'', ''   ''])) emptyStore) = emptyStore"
proof -
  have v: "trim ''Best color?'' \<noteq> [] \<and>
      2 \<le> length (filter (\<lambda>opt. trim opt \<noteq> []) [''Red'', ''Blue'', ''Blue'', ''''])"
    "trim ''Best color?'' \<noteq> [] \<and>
      2 \<le> length (filter (\<lambda>opt. trim opt \<noteq> []) [''Red'', ''Blue''])"
    "\<not> (trim ''Best color?'' \<noteq> [] \<and>
      2 \<le> length (filter (\<lambda>opt. trim opt \<noteq> []) [''Red'', ''   '']))"
    by (simp_all add: trim_simps)
  have n: "polls emptyStore (generatePollId exampleEnv) = None"
    by (simp add: emptyStore_def)
  have o: "polls votedStore (generatePollId exampleEnv) \<noteq> None"
    by (simp add: votedStore_eq)
  note t1 = create_stores_under_generated_id [of exampleEnv exampleEnv "''Best color?''"
      "[''Red'', ''Blue'', ''Blue'', '''']" emptyStore]
  note b1 = t1 [THEN conjunct2, THEN conjunct2, unfolded if_P [OF v(1)]]
  from t1 [THEN conjunct1]
  have 1: "generatePollId exampleEnv = ''poll_1700000000000_k3j9x2m1q''"
    by (simp add: exampleEnv_def showNat.simps)
  from b1 [THEN conjunct1]
  have 2: "createPoll exampleEnv (JStr ''Best color?'')
        (JArr (map JStr [''Red'', ''Blue'', ''Blue'', ''''])) emptyStore =
       (Inr \<lparr>cv_pollId = generatePollId exampleEnv, cv_question = ''Best color?'',
             cv_options = [''Red'', ''Blue'', ''Blue''], cv_status = Active\<rparr>,
        \<lparr>polls = [generatePollId exampleEnv \<mapsto> examplePoll], closedInherited = {}\<rparr>)"
    by (simp add: trim_simps examplePoll_def emptyStore_def)
  from b1 [THEN conjunct2, THEN conjunct2, THEN conjunct1, rule_format, OF n, THEN conjunct1]
  have 3: "dom (polls (snd (createPoll exampleEnv (JStr ''Best color?'')
        (JArr (map JStr [''Red'', ''Blue'', ''Blue'', ''''])) emptyStore)))
       = {generatePollId exampleEnv}"
    by (simp add: emptyStore_def)
  note t2 = create_stores_under_generated_id [of exampleEnv exampleEnv "''Best color?''"
      "[''Red'', ''Blue'']" votedStore]
  note b2 = t2 [THEN conjunct2, THEN conjunct2, unfolded if_P [OF v(2)]]
  note 4 = b2 [THEN conjunct2, THEN conjunct2, THEN conjunct2, rule_format, OF o]
  note t3 = create_stores_under_generated_id [of exampleEnv exampleEnv "''Best color?''"
      "[''Red'', ''   '']" emptyStore]
  note 5 = t3 [THEN conjunct2, THEN conjunct2, unfolded if_not_P [OF v(3)]]
  show ?thesis
    by (intro conjI 1 2 3 4 5 [THEN conjunct1] 5 [THEN conjunct2])
qed

text \<open>
  Outside the documented body \<^verbatim>\<open>{ question: string, options: string[] }\<close>: an option
  that is not a string has no \<^verbatim>\<open>trim\<close> method, line 78 throws and the request is
  answered with status 500.
\<close>

lemma create_non_string_option:
  "createPoll e (JStr ''Best color?'') (JArr [JStr ''Red'', JNum 7]) s = (Inl ServerError, s)"
  by (simp add: createPoll_def trim_simps)

text \<open>What the create request stores as options: the filter of line 78.\<close>

lemma create_stores_filtered:
  "createPoll e (JStr q) (JArr (map JStr os)) s = (Inr v, s') \<Longrightarrow>
     map_option options (polls s' (generatePollId e)) = Some (filter (\<lambda>opt. trim opt \<noteq> []) os)"
  by (auto simp: createPoll_def cleanOptions_strings Let_def split: if_splits)

text \<open>
  Claim C5 says that the stored options are the input options trimmed, the empty ones
  discarded. The code discards the options that are empty after trimming but stores
  the others as they were given: line 78 uses \<^verbatim>\<open>opt.trim()\<close> as the filter's test
  only, whereas line 90 stores the question trimmed. The option \<^verbatim>\<open>' Red '\<close> is stored
  with its spaces.
\<close>

theorem options_stored_untrimmed:
  "map_option options
     (polls (step (Create exampleEnv (JStr ''Best color?'') (JArr [JStr '' Red '', JStr ''Blue'']))
               emptyStore)
        (generatePollId exampleEnv)) = Some ['' Red '', ''Blue'']
   \<and> trim '' Red '' = ''Red''"
  by (simp add: createPoll_def trim_simps Let_def emptyStore_def)

section \<open>Casting a vote\<close>

lemma isIndex_nat [simp]: "isIndex (real i)"
  by (simp add: isIndex_def)

text \<open>
  Claim C3. In a reachable store, for an active poll \<open>p\<close> stored under \<open>k\<close>, an
  index \<open>i\<close> of one of its options and a voter identity that is not among its voters:
  the vote request succeeds, returns the text of option \<open>i\<close> and the poll id,
  increments the vote count \<open>i\<close> by one, leaves every other count as it is and adds
  the voter identity. In the resulting store, a vote request for any of the poll's
  options that carries the same voter identity is refused with \<open>DuplicateVoteError\<close>
  and leaves the store, hence all counts and the voters, unchanged.
\<close>

theorem vote_then_repeat:
  assumes "reachable s" and "polls s k = Some p" and "status p = Active"
    and "i < length (options p)" and "uniqueVoterId voterId ip \<notin> voters p"
  shows "(let p' = p\<lparr>votes := (votes p)[i := votes p ! i + 1],
                    voters := insert (uniqueVoterId voterId ip) (voters p)\<rparr>;
              s' = s\<lparr>polls := (polls s)(k \<mapsto> p')\<rparr>
          in vote k (JNum (real i)) voterId ip s =
               (Inr \<lparr>vr_pollId = k, vr_option = Some (options p ! i)\<rparr>, s')
           \<and> votes p' ! i = votes p ! i + 1
           \<and> length (votes p') = length (votes p)
           \<and> (\<forall>j. j \<noteq> i \<longrightarrow> votes p' ! j = votes p ! j)
           \<and> (\<forall>j voterId' ip'.
                 j < length (options p) \<and> uniqueVoterId voterId' ip' = uniqueVoterId voterId ip \<longrightarrow>
                 vote k (JNum (real j)) voterId' ip' s' = (Inl DuplicateVoteError, s')))"
proof -
  from assms(1,2) have len: "length (votes p) = length (options p)"
    by (simp add: reachable_poll)
  with assms(4) have i: "i < length (votes p)" by simp
  show ?thesis
    using assms(2-5) i
    by (auto simp: Let_def vote_def getPollOrError_def incrementAt_def optionAt_def)
qed

theorem vote_then_repeat_witness:
  "vote (generatePollId exampleEnv) (JNum 1) (Some ''voterA'') ''10.0.0.7'' exampleStore =
     (Inr \<lparr>vr_pollId = generatePollId exampleEnv, vr_option = Some ''Blue''\<rparr>,
      \<lparr>polls = [generatePollId exampleEnv \<mapsto>
          examplePoll\<lparr>votes := [0, 1, 0], voters := {''voterA''}\<rparr>], closedInherited = {}\<rparr>)
   \<and> vote (generatePollId exampleEnv) (JNum 2) (Some ''voterA'') ''10.0.0.9''
       \<lparr>polls = [generatePollId exampleEnv \<mapsto>
          examplePoll\<lparr>votes := [0, 1, 0], voters := {''voterA''}\<rparr>], closedInherited = {}\<rparr> =
     (Inl DuplicateVoteError,
      \<lparr>polls = [generatePollId exampleEnv \<mapsto>
          examplePoll\<lparr>votes := [0, 1, 0], voters := {''voterA''}\<rparr>], closedInherited = {}\<rparr>)"
proof -
  have h: "polls exampleStore (generatePollId exampleEnv) = Some examplePoll"
    "status examplePoll = Active" "1 < length (options examplePoll)"
    "uniqueVoterId (Some ''voterA'') ''10.0.0.7'' \<notin> voters examplePoll"
    by (simp_all add: exampleStore_eq examplePoll_def uniqueVoterId_def)
  from vote_then_repeat [OF reachable_exampleStore h]
  have "let p' = examplePoll\<lparr>votes := [0, 1, 0], voters := {''voterA''}\<rparr>;
            s' = \<lparr>polls = [generatePollId exampleEnv \<mapsto> p'], closedInherited = {}\<rparr>
        in vote (generatePollId exampleEnv) (JNum 1) (Some ''voterA'') ''10.0.0.7'' exampleStore =
             (Inr \<lparr>vr_pollId = generatePollId exampleEnv, vr_option = Some ''Blue''\<rparr>, s')
         \<and> (\<forall>j voterId' ip'.
               j < 3 \<and> uniqueVoterId voterId' ip' = ''voterA'' \<longrightarrow>
               vote (generatePollId exampleEnv) (JNum (real j)) voterId' ip' s' = (Inl DuplicateVoteError, s'))"
    by (simp add: Let_def exampleStore_eq examplePoll_def uniqueVoterId_def)
  then show ?thesis
    unfolding Let_def
    apply (intro conjI)
     apply (elim conjE, assumption)
    apply (elim conjE)
    apply (drule spec [of _ 2], drule spec [of _ "Some ''voterA''"], drule spec [of _ "''10.0.0.9''"])
    apply (simp add: uniqueVoterId_def)
    done
qed

text \<open>What the option index check of line 186 decides.\<close>

lemma vote_validation:
  assumes "polls s k = Some p" and "status p = Active"
  shows "isValidationError (fst (vote k optionIndex voterId ip s)) \<longleftrightarrow>
           (\<forall>r. optionIndex = JNum r \<longrightarrow> r < 0 \<or> real (length (options p)) \<le> r)"
  using assms
  by (cases optionIndex) (auto simp: vote_def getPollOrError_def invalidOptionIndex_def)

text \<open>
  Claim C2 says that a vote request on an active poll, from a voter who has not voted,
  is refused with \<open>ValidationError\<close> exactly when the option index is not an integer
  from 0 up to the number of options. The code does not refuse the index 0.5 on a poll
  with three options: line 186 tests that the index is a number, not below 0 and not
  at or above the number of options, and never that it is an integer. The request
  succeeds, returns no option text, counts no vote and records the voter.
\<close>

theorem fractional_index_accepted:
  "vote (generatePollId exampleEnv) (JNum (1 / 2)) (Some ''voterA'') ''10.0.0.7'' exampleStore =
     (Inr \<lparr>vr_pollId = generatePollId exampleEnv, vr_option = None\<rparr>,
      \<lparr>polls = [generatePollId exampleEnv \<mapsto> examplePoll\<lparr>voters := {''voterA''}\<rparr>],
       closedInherited = {}\<rparr>)"
  by (simp add: exampleStore_eq vote_def getPollOrError_def examplePoll_def incrementAt_def
      optionAt_def isIndex_def uniqueVoterId_def)

section \<open>The tally and the voters\<close>


lemma sum_list_incrementAt_index:
  "isIndex r \<Longrightarrow> nat \<lfloor>r\<rfloor> < length vs \<Longrightarrow> sum_list (incrementAt r vs) = sum_list vs + 1"
  by (simp add: incrementAt_def sum_list_update)

lemma sum_list_zeros: "sum_list (map (\<lambda>x. 0::nat) xs) = 0"
  by (induction xs) simp_all

lemma step_tally:
  assumes inv: "\<And>k p. polls s k = Some p \<Longrightarrow>
      length (votes p) = length (options p) \<and> finite (voters p) \<and> sum_list (votes p) = card (voters p)"
    and x: "integerIndex x" and P: "polls (step x s) k = Some P"
  shows "length (votes P) = length (options P) \<and> finite (voters P) \<and> sum_list (votes P) = card (voters P)"
proof (cases x)
  case (Create e q os)
  with P have "polls (snd (createPoll e q os s)) k = Some P" by simp
  from polls_createPoll_zero [OF this] show ?thesis
  proof
    assume "polls s k = Some P" then show ?thesis by (rule inv)
  next
    assume "voters P = {} \<and> votes P = map (\<lambda>opt. 0) (options P)"
    then show ?thesis by (simp add: sum_list_zeros)
  qed
next
  case (Vote pollId oi vid ip)
  with P have v: "polls (snd (vote pollId oi vid ip s)) k = Some P" by simp
  show ?thesis
  proof (cases oi)
    case (JNum r)
    with x Vote have int: "of_int \<lfloor>r\<rfloor> = r" by simp
    from v JNum have "polls (snd (vote pollId (JNum r) vid ip s)) k = Some P" by simp
    from polls_vote_number [OF this] show ?thesis
    proof (elim disjE exE conjE)
      assume "polls s k = Some P" then show ?thesis by (rule inv)
    next
      fix p
      assume p: "polls s k = Some p" and r: "0 \<le> r" "r < real (length (options p))"
        and new: "uniqueVoterId vid ip \<notin> voters p"
        and P: "P = p\<lparr>votes := incrementAt r (votes p), voters := insert (uniqueVoterId vid ip) (voters p)\<rparr>"
      from inv [OF p] have len: "length (votes p) = length (options p)" and fin: "finite (voters p)"
        and tally: "sum_list (votes p) = card (voters p)" by simp_all
      from r int have idx: "isIndex r" by (simp add: isIndex_def)
      have "real_of_int \<lfloor>r\<rfloor> \<le> r" by (rule of_int_floor_le)
      with r(2) have "real_of_int \<lfloor>r\<rfloor> < real (length (options p))" by linarith
      then have "\<lfloor>r\<rfloor> < int (length (options p))" by linarith
      moreover from r(1) have "0 \<le> \<lfloor>r\<rfloor>" by simp
      ultimately have "nat \<lfloor>r\<rfloor> < length (votes p)" using len by (simp add: nat_less_iff)
      with idx have "sum_list (incrementAt r (votes p)) = sum_list (votes p) + 1"
        by (rule sum_list_incrementAt_index)
      with len fin tally new show ?thesis by (simp add: P)
    qed
  qed (use v inv in \<open>simp_all add: vote_not_number\<close>)
next
  case (Close pollId)
  with P have "polls (snd (closePoll pollId s)) k = Some P" by simp
  from polls_closePoll [OF this] inv show ?thesis by auto
next
  case (Delete pollId)
  with P have "polls (snd (deletePoll pollId s)) k = Some P" by simp
  from polls_deletePoll [OF this] inv show ?thesis by auto
qed

lemma run_tally:
  "(\<And>k p. polls s k = Some p \<Longrightarrow>
      length (votes p) = length (options p) \<and> finite (voters p) \<and> sum_list (votes p) = card (voters p)) \<Longrightarrow>
   list_all integerIndex xs \<Longrightarrow> polls (run xs s) k = Some P \<Longrightarrow>
   length (votes P) = length (options P) \<and> finite (voters P) \<and> sum_list (votes P) = card (voters P)"
proof (induction xs arbitrary: s)
  case Nil
  then show ?case by simp
next
  case (Cons x xs)
  show ?case
  proof (rule Cons.IH [of "step x s"])
    fix k' p' assume "polls (step x s) k' = Some p'"
    with Cons.prems(1,2) show "length (votes p') = length (options p') \<and> finite (voters p')
        \<and> sum_list (votes p') = card (voters p')"
      by (intro step_tally [of s x k' p']) auto
  next
    from Cons.prems show "list_all integerIndex xs" by simp
  next
    from Cons.prems show "polls (run xs (step x s)) k = Some P" by simp
  qed
qed

text \<open>
  When every vote request carries an integer (or no number at all) as its option
  index, the sum of the counts of a poll is the number of its voters.
\<close>

lemma tally_with_integer_indices:
  "list_all integerIndex xs \<Longrightarrow> polls (run xs emptyStore) k = Some p \<Longrightarrow>
     sum_list (votes p) = card (voters p)"
  using run_tally [of emptyStore xs k p] by (simp add: emptyStore_def)

text \<open>
  Claim C1 says that in every reachable store the sum of a poll's vote counts is the
  number of its voters. The code does not keep this: after a create request and a vote
  request with the option index 0.5, which line 186 accepts, the poll has the counts
  \<open>[0, 0]\<close>, of sum 0, and one voter.
\<close>

theorem fractional_vote_breaks_tally:
  "map_option (\<lambda>p. (votes p, sum_list (votes p), voters p, card (voters p)))
     (polls (run [Create exampleEnv (JStr ''Best color?'') (JArr [JStr ''Red'', JStr ''Blue'']),
                  Vote (generatePollId exampleEnv) (JNum (1 / 2)) (Some ''voterA'') ''10.0.0.7'']
               emptyStore)
        (generatePollId exampleEnv)) =
   Some ([0, 0], 0, {''voterA''}, 1)"
  by (simp add: createPoll_def vote_def getPollOrError_def trim_simps Let_def emptyStore_def
      incrementAt_def isIndex_def uniqueVoterId_def)

section \<open>The voter identity\<close>

lemma uniqueVoterId_nonempty: "ip \<noteq> [] \<Longrightarrow> uniqueVoterId voterId ip \<noteq> []"
  by (simp add: uniqueVoterId_def split: option.splits)

lemma uniqueVoterId_nonempty': "ip \<noteq> [] \<Longrightarrow> [] \<noteq> uniqueVoterId voterId ip"
  using uniqueVoterId_nonempty [of ip voterId] by auto

lemma step_no_empty_voter:
  assumes inv: "\<And>k p. polls s k = Some p \<Longrightarrow> [] \<notin> voters p"
    and x: "addressGiven x" and P: "polls (step x s) k = Some P"
  shows "[] \<notin> voters P"
proof (cases x)
  case (Create e q os)
  with P have "polls (snd (createPoll e q os s)) k = Some P" by simp
  from polls_createPoll [OF this] inv show ?thesis by auto
next
  case (Vote pollId oi vid ip)
  with P have "polls (snd (vote pollId oi vid ip s)) k = Some P" by simp
  from polls_vote [OF this] inv x Vote show ?thesis
    by (auto simp: uniqueVoterId_nonempty uniqueVoterId_nonempty')
next
  case (Close pollId)
  with P have "polls (snd (closePoll pollId s)) k = Some P" by simp
  from polls_closePoll [OF this] inv show ?thesis by auto
next
  case (Delete pollId)
  with P have "polls (snd (deletePoll pollId s)) k = Some P" by simp
  from polls_deletePoll [OF this] inv show ?thesis by auto
qed

lemma run_no_empty_voter:
  "(\<And>k p. polls s k = Some p \<Longrightarrow> [] \<notin> voters p) \<Longrightarrow> list_all addressGiven xs \<Longrightarrow>
     polls (run xs s) k = Some P \<Longrightarrow> [] \<notin> voters P"
proof (induction xs arbitrary: s)
  case Nil
  then show ?case by simp
next
  case (Cons x xs)
  show ?case
  proof (rule Cons.IH [of "step x s"])
    fix k' p' assume "polls (step x s) k' = Some p'"
    with Cons.prems show "[] \<notin> voters p'"
      by (intro step_no_empty_voter [of s x k' p']) auto
  next
    from Cons.prems show "list_all addressGiven xs" by simp
  next
    from Cons.prems show "polls (run xs (step x s)) k = Some P" by simp
  qed
qed

text \<open>
  Claim C10. The voter identity is the connection address when \<^verbatim>\<open>voterId\<close> is absent
  and also when it is the empty string: a vote request whose \<^verbatim>\<open>voterId\<close> is the empty
  string behaves as the request without \<^verbatim>\<open>voterId\<close> does, and is refused as a
  duplicate when the connection address has voted. When the connection address is not
  empty, the identity is not empty, and no poll of a store reached by requests with
  non-empty connection addresses has the empty string among its voters.
\<close>

theorem empty_voterId_falls_back:
  "uniqueVoterId None ip = ip
   \<and> uniqueVoterId (Some []) ip = ip
   \<and> vote k optionIndex (Some []) ip s = vote k optionIndex None ip s
   \<and> (polls s k = Some p \<and> status p = Active \<and> 0 \<le> r \<and> r < real (length (options p))
        \<and> ip \<in> voters p \<longrightarrow>
      vote k (JNum r) (Some []) ip s = (Inl DuplicateVoteError, s))
   \<and> (ip \<noteq> [] \<longrightarrow> uniqueVoterId voterId ip \<noteq> [])
   \<and> (list_all addressGiven xs \<and> polls (run xs emptyStore) k = Some p \<longrightarrow> [] \<notin> voters p)"
proof (intro conjI impI)
  show "vote k optionIndex (Some []) ip s = vote k optionIndex None ip s"
    by (auto simp: vote_def uniqueVoterId_def split: option.splits found.splits jsval.splits)
next
  assume "polls s k = Some p \<and> status p = Active \<and> 0 \<le> r \<and> r < real (length (options p))
        \<and> ip \<in> voters p"
  then show "vote k (JNum r) (Some []) ip s = (Inl DuplicateVoteError, s)"
    by (simp add: vote_def getPollOrError_def uniqueVoterId_def)
next
  assume "list_all addressGiven xs \<and> polls (run xs emptyStore) k = Some p"
  then show "[] \<notin> voters p"
    by (intro run_no_empty_voter [of emptyStore xs k p]) (simp_all add: emptyStore_def)
next
  assume "ip \<noteq> []"
  then show "uniqueVoterId voterId ip \<noteq> []" by (rule uniqueVoterId_nonempty)
qed (simp_all add: uniqueVoterId_def)

theorem empty_voterId_falls_back_witness:
  "vote (generatePollId exampleEnv) (JNum 0) (Some []) ''10.0.0.7''
       \<lparr>polls = [generatePollId exampleEnv \<mapsto> examplePoll\<lparr>votes := [0, 1, 0], voters := {''10.0.0.7''}\<rparr>],
        closedInherited = {}\<rparr> =
     (Inl DuplicateVoteError,
      \<lparr>polls = [generatePollId exampleEnv \<mapsto> examplePoll\<lparr>votes := [0, 1, 0], voters := {''10.0.0.7''}\<rparr>],
        closedInherited = {}\<rparr>)
   \<and> uniqueVoterId (Some []) ''10.0.0.7'' = ''10.0.0.7''
   \<and> polls (run [Create exampleEnv (JStr ''Best color?'') (JArr [JStr ''Red'', JStr ''Blue'']),
                 Vote (generatePollId exampleEnv) (JNum 1) (Some []) ''10.0.0.7''] emptyStore)
        (generatePollId exampleEnv) =
      Some \<lparr>id_poll = generatePollId exampleEnv, question = ''Best color?'',
             options = [''Red'', ''Blue''], votes = [0, 1], status = Active,
             createdAt = isoString exampleEnv, voters = {''10.0.0.7''}\<rparr>
   \<and> [] \<notin> {''10.0.0.7''}"
proof -
  let ?s = "\<lparr>polls = [generatePollId exampleEnv \<mapsto> examplePoll\<lparr>votes := [0, 1, 0], voters := {''10.0.0.7''}\<rparr>],
        closedInherited = {}\<rparr>"
  let ?xs = "[Create exampleEnv (JStr ''Best color?'') (JArr [JStr ''Red'', JStr ''Blue'']),
                 Vote (generatePollId exampleEnv) (JNum 1) (Some []) ''10.0.0.7'']"
  let ?p = "\<lparr>id_poll = generatePollId exampleEnv, question = ''Best color?'',
             options = [''Red'', ''Blue''], votes = [0, 1], status = Active,
             createdAt = isoString exampleEnv, voters = {''10.0.0.7''}\<rparr>"
  have run: "polls (run ?xs emptyStore) (generatePollId exampleEnv) = Some ?p"
    by (simp add: createPoll_def vote_def getPollOrError_def trim_simps Let_def emptyStore_def
        incrementAt_def isIndex_def optionAt_def uniqueVoterId_def)
  have h: "polls ?s (generatePollId exampleEnv) = Some (examplePoll\<lparr>votes := [0, 1, 0], voters := {''10.0.0.7''}\<rparr>)
      \<and> status (examplePoll\<lparr>votes := [0, 1, 0], voters := {''10.0.0.7''}\<rparr>) = Active \<and> (0::real) \<le> 0
      \<and> 0 < real (length (options (examplePoll\<lparr>votes := [0, 1, 0], voters := {''10.0.0.7''}\<rparr>)))
      \<and> ''10.0.0.7'' \<in> voters (examplePoll\<lparr>votes := [0, 1, 0], voters := {''10.0.0.7''}\<rparr>)"
    by (simp add: examplePoll_def)
  have a: "list_all addressGiven ?xs" by simp
  from empty_voterId_falls_back [of "''10.0.0.7''" "generatePollId exampleEnv" "JNum 0" ?s
      "examplePoll\<lparr>votes := [0, 1, 0], voters := {''10.0.0.7''}\<rparr>" 0 None ?xs] h
  have 1: "vote (generatePollId exampleEnv) (JNum 0) (Some []) ''10.0.0.7'' ?s = (Inl DuplicateVoteError, ?s)"
    and 2: "uniqueVoterId (Some []) ''10.0.0.7'' = ''10.0.0.7''"
    by blast+
  from empty_voterId_falls_back [of "''10.0.0.7''" "generatePollId exampleEnv" "JNum 0" emptyStore ?p 0 None ?xs]
    a run
  have 3: "[] \<notin> voters ?p" by blast
  from 1 2 3 run show ?thesis by simp
qed

section \<open>Closing a poll\<close>
















section \<open>Deleting a poll\<close>

lemma prefix_not_inherited: "take 5 k = ''poll_'' \<Longrightarrow> \<not> inheritedKey k s"
  by (auto simp: inheritedKey_def objectPrototypeKeys_def)

text \<open>
  Deleting a poll of a reachable store succeeds and removes it, and then every request
  for its identifier is answered with \<open>NotFoundError\<close>: a generated identifier
  starts with \<^verbatim>\<open>poll_\<close> and is not a key of \<^verbatim>\<open>Object.prototype\<close>.
\<close>

lemma deletePoll_existing:
  assumes "reachable s" and "polls s k = Some p"
  shows "deletePoll k s = (Inr k, s\<lparr>polls := (polls s)(k := None)\<rparr>)
       \<and> getPoll k (s\<lparr>polls := (polls s)(k := None)\<rparr>) = Inl NotFoundError
       \<and> vote k optionIndex voterId ip (s\<lparr>polls := (polls s)(k := None)\<rparr>)
           = (Inl NotFoundError, s\<lparr>polls := (polls s)(k := None)\<rparr>)
       \<and> results k (s\<lparr>polls := (polls s)(k := None)\<rparr>) = Inl NotFoundError
       \<and> closePoll k (s\<lparr>polls := (polls s)(k := None)\<rparr>)
           = (Inl NotFoundError, s\<lparr>polls := (polls s)(k := None)\<rparr>)"
proof -
  from assms have "take 5 k = ''poll_''" by (simp add: reachable_poll)
  then have "\<not> inheritedKey k (s\<lparr>polls := (polls s)(k := None)\<rparr>)"
    by (rule prefix_not_inherited)
  with assms(2) show ?thesis
    by (simp add: deletePoll_def getPoll_def vote_def results_def closePoll_def getPollOrError_def)
qed

text \<open>
  Deleting an identifier that is neither a poll nor an inherited key is answered with
  \<open>NotFoundError\<close>; deleting an inherited key is answered with success and changes
  nothing.
\<close>

lemma deletePoll_unknown:
  "polls s k = None \<Longrightarrow> \<not> inheritedKey k s \<Longrightarrow> deletePoll k s = (Inl NotFoundError, s)"
  by (simp add: deletePoll_def getPollOrError_def)

lemma deletePoll_inherited:
  "polls s k = None \<Longrightarrow> inheritedKey k s \<Longrightarrow> deletePoll k s = (Inr k, s)"
  using fun_upd_idem [of "polls s" k None]
  by (simp add: deletePoll_def getPollOrError_def)

text \<open>
  After \<^verbatim>\<open>PUT /api/polls/__proto__/close\<close> the key \<^verbatim>\<open>status\<close> is found as well: it
  reads as a closed poll.
\<close>

lemma status_key_after_closing_proto:
  "getPollOrError ''status'' emptyStore = None
   \<and> closePoll ''__proto__'' emptyStore =
       (Inr (''__proto__'', Closed), emptyStore\<lparr>closedInherited := {''__proto__''}\<rparr>)
   \<and> getPoll ''status'' (emptyStore\<lparr>closedInherited := {''__proto__''}\<rparr>) =
       Inr (InheritedView True)
   \<and> deletePoll ''status'' (emptyStore\<lparr>closedInherited := {''__proto__''}\<rparr>) =
       (Inr ''status'', emptyStore\<lparr>closedInherited := {''__proto__''}\<rparr>)
   \<and> vote ''status'' optionIndex voterId ip (emptyStore\<lparr>closedInherited := {''__proto__''}\<rparr>) =
       (Inl ClosedError, emptyStore\<lparr>closedInherited := {''__proto__''}\<rparr>)"
  by (simp add: getPollOrError_def inheritedKey_def objectPrototypeKeys_def emptyStore_def
      closePoll_def getPoll_def deletePoll_def vote_def inheritedClosed_def)

text \<open>
  Claim C9 says that deleting a poll removes it, so that the later requests for its
  identifier fail with \<open>NotFoundError\<close>, which holds, and that deleting an identifier
  that names no poll fails with \<open>NotFoundError\<close>. The code answers the delete request for \<^verbatim>\<open>constructor\<close> on the
  empty store with success: \<^verbatim>\<open>polls['constructor']\<close> is the function inherited from
  \<^verbatim>\<open>Object.prototype\<close>, which \<^verbatim>\<open>getPollOrError\<close> takes for a poll.
\<close>

theorem delete_inherited_key:
  "polls emptyStore ''constructor'' = None
   \<and> deletePoll ''constructor'' emptyStore = (Inr ''constructor'', emptyStore)"
  by (simp add: deletePoll_def getPollOrError_def inheritedKey_def emptyStore_def
      objectPrototypeKeys_def)

section \<open>Totals and percentages\<close>















text \<open>
  At an exact tie the double arithmetic decides: 23 votes of 80 are exactly 28.75
  percent, the double computed is just below, and the string is \<^verbatim>\<open>28.7\<close>.
\<close>

lemma toFixed1_tie: "toFixed1 (percentageOf 23 80) = ''28.7''"
  by (simp add: toFixed1_def showNat.simps tenths_def percentageOf_def float64_def
      binaryExponent.simps roundEven_def Let_def power_int_minus)



end
